theory Spec2Isabelle
  imports Complex_Main "HOL-Library.Char_ord" "HOL-Library.List_Lexorder"
begin

section \<open>The Tor management bot (torbot.py)\<close>

text \<open>
  The bot is a set of command handlers over three module-level dictionaries
  (\<open>authenticated_users\<close>, \<open>user_preferences\<close>, \<open>user_last_update\<close>), a fixed
  set of blocked user ids, and one function, \<open>update_identity\<close>, that talks to the
  Tor control port. The handlers are modelled by explicit state passing: each takes
  the dictionaries and returns them updated, together with the list of actions it
  performed (messages sent, control-port commands issued) and the exception that
  escapes it, if any.

  What stands outside the program is an input of the model:
  \<^item> the reading of the event loop's clock (a Python float) is an exact rational
    number of seconds;
  \<^item> the Tor control port answers each command either normally or with an error;
  \<^item> sending a message through the chat platform succeeds, so the only exceptions
    are those of the control port;
  \<^item> \<open>str.upper()\<close> follows the Unicode case tables of the interpreter, which are
    not in the repository (they send the long s, U+017F, to \<open>S\<close>, for instance): the
    function is a parameter, the field \<open>upper\<close> of the configuration, and the
    theorems hold whatever it computes;
  \<^item> a string is the list of its bytes, and \<open>strip\<close> removes ASCII white space;
  \<^item> logging is left out.
\<close>

subsection \<open>Strings\<close>

definition ascii_upper_char :: "char \<Rightarrow> char" where
  "ascii_upper_char c =
     (let n = (of_char c :: nat) in if 97 \<le> n \<and> n \<le> 122 then char_of (n - 32) else c)"

text \<open>
  What \<open>str.upper()\<close> returns on a string of ASCII characters: the letters a-z become
  A-Z and every other character is kept. It is the \<open>upper\<close> of the sample
  configuration below, which is only ever applied to ASCII strings.
\<close>
definition ascii_upper :: "string \<Rightarrow> string" where
  "ascii_upper s = map ascii_upper_char s"

definition is_space :: "char \<Rightarrow> bool" where
  "is_space c = (let n = (of_char c :: nat) in (9 \<le> n \<and> n \<le> 13) \<or> (28 \<le> n \<and> n \<le> 32))"

text \<open>\<open>str.strip()\<close>\<close>
definition strip :: "string \<Rightarrow> string" where
  "strip s = rev (dropWhile is_space (rev (dropWhile is_space s)))"

text \<open>\<open>s.split(sep)\<close> for a one-character separator: never an empty list.\<close>
fun split :: "char \<Rightarrow> string \<Rightarrow> string list" where
  "split sep [] = [[]]"
| "split sep (c # cs) =
     (if c = sep then [] # split sep cs
      else (case split sep cs of [] \<Rightarrow> [[c]] | w # ws \<Rightarrow> (c # w) # ws))"

text \<open>\<open>sep.join(xs)\<close>\<close>
fun join :: "string \<Rightarrow> string list \<Rightarrow> string" where
  "join sep [] = []"
| "join sep [x] = x"
| "join sep (x # y # ys) = x @ sep @ join sep (y # ys)"

fun digits :: "nat \<Rightarrow> string" where
  "digits n =
     (if n < 10 then [char_of (48 + n)] else digits (n div 10) @ [char_of (48 + n mod 10)])"

declare digits.simps [simp del]

text \<open>The decimal text of an integer, as an f-string prints it.\<close>
definition str_of_int :: "int \<Rightarrow> string" where
  "str_of_int i = (if i < 0 then CHR ''-'' # digits (nat (- i)) else digits (nat i))"

text \<open>\<open>int(x)\<close> on a float: truncation towards zero.\<close>
definition py_int :: "rat \<Rightarrow> int" where
  "py_int x = (if 0 \<le> x then \<lfloor>x\<rfloor> else \<lceil>x\<rceil>)"

subsection \<open>Configuration and module state\<close>

text \<open>
  What is fixed when the module is loaded: the values read from the environment
  (lines 45-49) and the interpreter's \<open>str.upper()\<close>, called at lines 57, 72, 74 and
  228.
\<close>
record config =
  TELEGRAM_BOT_TOKEN :: "string option"
  AUTH_PASSWORD :: string
  TOR_CONTROL_PASSWORD :: string
  TOR_CONTROL_PORT :: int
  ALLOWED_COUNTRIES_ENV :: string
  upper :: "string \<Rightarrow> string"

text \<open>
  The defaults of \<open>os.getenv\<close>, with some bot token set. The default list of
  countries is ASCII, and so are the codes sent to this configuration below.
\<close>
definition default_config :: config where
  "default_config =
     \<lparr> TELEGRAM_BOT_TOKEN = Some ''token'',
       AUTH_PASSWORD = ''AUTHENTICATE_PASSWORD_MUST_BE_HERE'',
       TOR_CONTROL_PASSWORD = ''YOUR_PASSWORD_MUST_BE_HERE'',
       TOR_CONTROL_PORT = 9051,
       ALLOWED_COUNTRIES_ENV = ''NO,FI,DK,SE,IS,NL,DE,CA,CH,NZ,AU,BE,IE,EE,PT,LU,UY,TW,JP,KR'',
       upper = ascii_upper \<rparr>"

definition BLOCKED_USER_IDS :: "int set" where
  "BLOCKED_USER_IDS = {123456789, 987654321}"

definition EASTER_EGG_FILE :: string where
  "EASTER_EGG_FILE = ''easter_egg.mp3''"

text \<open>Line 57: the stripped, uppercased, non-empty items of the comma-separated list.\<close>
definition VALID_COUNTRIES :: "config \<Rightarrow> string set" where
  "VALID_COUNTRIES cfg =
     set (map (\<lambda>country. upper cfg (strip country))
            (filter (\<lambda>country. strip country \<noteq> []) (split CHR '','' (ALLOWED_COUNTRIES_ENV cfg))))"

definition RATE_LIMIT :: rat where
  "RATE_LIMIT = 5 * 60"

text \<open>
  The three dictionaries of lines 59-63 and the application's job queue: the delays
  of the one-shot jobs that are scheduled and have not run yet.
\<close>
record bot_state =
  authenticated_users :: "int \<rightharpoonup> bool"
  user_preferences :: "int \<rightharpoonup> string"
  user_last_update :: "int \<rightharpoonup> rat"
  job_queue :: "nat list"

definition initial_state :: bot_state where
  "initial_state =
     \<lparr> authenticated_users = Map.empty, user_preferences = Map.empty,
       user_last_update = Map.empty, job_queue = [] \<rparr>"

definition is_blocked :: "int \<Rightarrow> bool" where
  "is_blocked user_id = (user_id \<in> BLOCKED_USER_IDS)"

subsection \<open>The Tor control port\<close>

datatype ctl_cmd =
    FromPort int
  | Authenticate string
  | SetOptions string string
  | SignalNEWNYM
  | Close

datatype tor_error = SocketError | AuthenticationFailure | InvalidArguments | ControllerError

text \<open>The daemon of one call: the error with which it answers a command, if any.\<close>
type_synonym tor_daemon = "ctl_cmd \<Rightarrow> tor_error option"

datatype action =
    ReplyText string
  | ReplyHtml string
  | ReplyAudio string
  | AnswerInlineQuery "(string \<times> string) list"
  | Ctl ctl_cmd

text \<open>
  Lines 68-89. The first component lists the commands sent to the control port, the
  failing one included; once the connection is open, leaving the \<open>with\<close> block
  closes it. The \<open>except\<close> clause logs and raises again, so an error of any
  command is the error of the call. \<open>SetOptions e s\<close> stands for
  \<open>set_options({'ExitNodes': e, 'StrictNodes': s})\<close>.
\<close>
definition update_identity ::
  "config \<Rightarrow> tor_daemon \<Rightarrow> string option \<Rightarrow> action list \<times> (tor_error + unit)" where
  "update_identity cfg tor preferred_country =
     (let connect = FromPort (TOR_CONTROL_PORT cfg);
          auth = Authenticate (TOR_CONTROL_PASSWORD cfg);
          options =
            (case preferred_country of
               None \<Rightarrow> SetOptions [] ''0''
             | Some c \<Rightarrow>
                 if c \<noteq> [] \<and> upper cfg c \<in> VALID_COUNTRIES cfg
                 then SetOptions (''{'' @ upper cfg c @ ''}'') ''1''
                 else SetOptions [] ''0'')
      in case tor connect of
           Some e \<Rightarrow> ([Ctl connect], Inl e)
         | None \<Rightarrow>
             (case tor auth of
                Some e \<Rightarrow> ([Ctl connect, Ctl auth, Ctl Close], Inl e)
              | None \<Rightarrow>
                  (case tor options of
                     Some e \<Rightarrow> ([Ctl connect, Ctl auth, Ctl options, Ctl Close], Inl e)
                   | None \<Rightarrow>
                       (case tor SignalNEWNYM of
                          Some e \<Rightarrow>
                            ([Ctl connect, Ctl auth, Ctl options, Ctl SignalNEWNYM, Ctl Close],
                             Inl e)
                        | None \<Rightarrow>
                            ([Ctl connect, Ctl auth, Ctl options, Ctl SignalNEWNYM, Ctl Close],
                             Inr ())))))"

text \<open>The number of calls of \<open>update_identity\<close> in a trace: each opens one connection.\<close>
definition is_connect :: "action \<Rightarrow> bool" where
  "is_connect a = (case a of Ctl (FromPort p) \<Rightarrow> True | _ \<Rightarrow> False)"

definition rotations :: "action list \<Rightarrow> nat" where
  "rotations acts = length (filter is_connect acts)"

text \<open>What reaches the user: a reply or an answer to an inline query.\<close>
definition is_notice :: "action \<Rightarrow> bool" where
  "is_notice a = (case a of Ctl c \<Rightarrow> False | _ \<Rightarrow> True)"

subsection \<open>The environment of one update\<close>

record env =
  loop_time :: rat
  tor :: tor_daemon
  easter_egg_exists :: bool

text \<open>What a handler leaves behind: the state, the actions, the exception that escapes.\<close>
type_synonym result = "bot_state \<times> action list \<times> tor_error option"

definition NOT_AUTHENTICATED :: string where
  "NOT_AUTHENTICATED = ''You are not authenticated! Please authenticate using /auth <password>.''"

subsection \<open>The rate-limit check\<close>

datatype rate_result = Ok | Wait int

text \<open>
  Lines 187-190 and, word for word, 259-262: the source writes the check inline in
  \<open>update_command\<close> and in \<open>reset_command\<close>; \<open>Wait\<close> carries the number that
  the reply prints, \<open>int(wait_time)\<close>.
\<close>
definition check_rate_limit :: "bot_state \<Rightarrow> int \<Rightarrow> rat \<Rightarrow> rate_result" where
  "check_rate_limit st user_id current_time =
     (let last_update = (case user_last_update st user_id of None \<Rightarrow> 0 | Some t \<Rightarrow> t)
      in if current_time - last_update < RATE_LIMIT
         then (let wait_time = RATE_LIMIT - (current_time - last_update) in Wait (py_int wait_time))
         else Ok)"

definition PLEASE_WAIT :: "int \<Rightarrow> string" where
  "PLEASE_WAIT n = ''Please wait '' @ str_of_int n @ '' seconds before the next update.''"

subsection \<open>The command handlers\<close>

text \<open>Lines 93-113.\<close>
definition start_command :: "config \<Rightarrow> env \<Rightarrow> bot_state \<Rightarrow> int \<Rightarrow> result" where
  "start_command cfg ev st user_id =
     (if is_blocked user_id then
        (if easter_egg_exists ev then (st, [ReplyAudio EASTER_EGG_FILE], None)
         else (st, [ReplyText ''Easter egg file not found. Please call the administrator.''], None))
      else (st, [ReplyText ''Tor management bot. Use /auth <password> to authenticate.''], None))"

definition help_text :: string where
  "help_text =
     ''<b>Available commands:</b>\<newline>\<newline>'' @
     ''/start - Start the bot.\<newline>'' @
     ''/auth &lt;password&gt; - Authenticate to use protected commands.\<newline>'' @
     ''/update - Update your Tor identity.\<newline>'' @
     ''/setcountry &lt;country_code&gt; - Set your preferred country for Tor exit nodes (e.g., US, JP).\<newline>'' @
     ''/reset - Reset your preferred country and update Tor identity without restrictions.\<newline>'' @
     ''/countries - Show a list of available countries for selection.\<newline>'' @
     ''/help - Show this help message.''"

text \<open>Lines 115-137.\<close>
definition help_command :: "config \<Rightarrow> env \<Rightarrow> bot_state \<Rightarrow> int \<Rightarrow> result" where
  "help_command cfg ev st user_id =
     (if is_blocked user_id then (st, [ReplyText ''A?''], None)
      else (st, [ReplyHtml help_text], None))"

text \<open>Lines 139-169.\<close>
definition auth_command :: "config \<Rightarrow> env \<Rightarrow> bot_state \<Rightarrow> int \<Rightarrow> string list \<Rightarrow> result" where
  "auth_command cfg ev st user_id args =
     (if is_blocked user_id then (st, [ReplyText ''A?''], None)
      else if authenticated_users st user_id \<noteq> None then
        (st, [ReplyText ''You are already authenticated.''], None)
      else if length args \<noteq> 1 then (st, [ReplyText ''Usage: /auth <password>''], None)
      else
        (let input_password = strip (hd args);
             correct_password = strip (AUTH_PASSWORD cfg)
         in if input_password = correct_password then
              (st\<lparr>authenticated_users := (authenticated_users st)(user_id \<mapsto> True)\<rparr>,
               [ReplyText ''Authentication successful! Now you can use commands.''], None)
            else (st, [ReplyText ''Incorrect password. Please try again.''], None)))"

text \<open>Lines 175-202: the \<open>try\<close> block of \<open>update_command\<close>.\<close>
definition update_command_try :: "config \<Rightarrow> env \<Rightarrow> bot_state \<Rightarrow> int \<Rightarrow> result" where
  "update_command_try cfg ev st user_id =
     (if is_blocked user_id then (st, [ReplyText ''You are not allowed to use this bot.''], None)
      else if authenticated_users st user_id = None then (st, [ReplyText NOT_AUTHENTICATED], None)
      else
        (let current_time = loop_time ev
         in case check_rate_limit st user_id current_time of
              Wait n \<Rightarrow> (st, [ReplyText (PLEASE_WAIT n)], None)
            | Ok \<Rightarrow>
                (let preferred_country = user_preferences st user_id
                 in case update_identity cfg (tor ev) preferred_country of
                      (cmds, Inl e) \<Rightarrow> (st, cmds, Some e)
                    | (cmds, Inr u) \<Rightarrow>
                        (st\<lparr>user_last_update := (user_last_update st)(user_id \<mapsto> current_time)\<rparr>,
                         cmds @ [ReplyText ''Your Tor identity has been updated!''], None))))"

text \<open>Lines 171-205: the \<open>except Exception\<close> clause replies and returns.\<close>
definition update_command :: "config \<Rightarrow> env \<Rightarrow> bot_state \<Rightarrow> int \<Rightarrow> result" where
  "update_command cfg ev st user_id =
     (case update_command_try cfg ev st user_id of
        (st', acts, Some e) \<Rightarrow>
          (st', acts @ [ReplyText ''An error occurred while updating your identity.''], None)
      | (st', acts, None) \<Rightarrow> (st', acts, None))"

text \<open>Lines 207-241.\<close>
definition set_country_command ::
  "config \<Rightarrow> env \<Rightarrow> bot_state \<Rightarrow> int \<Rightarrow> string list \<Rightarrow> result" where
  "set_country_command cfg ev st user_id args =
     (if is_blocked user_id then (st, [ReplyText ''A?''], None)
      else if authenticated_users st user_id = None then (st, [ReplyText NOT_AUTHENTICATED], None)
      else if length args \<noteq> 1 then (st, [ReplyText ''Usage: /setcountry <country_code>''], None)
      else
        (let country_code = upper cfg (hd args)
         in if country_code \<notin> VALID_COUNTRIES cfg then
              (st, [ReplyText ''Invalid country code. Please use a two letter ISO code of country (e.g., US, JP, KR).''], None)
            else
              (st\<lparr>user_preferences := (user_preferences st)(user_id \<mapsto> country_code)\<rparr>,
               [ReplyText (''Preferred country set to: '' @ country_code)], None)))"

text \<open>Lines 247-276: the \<open>try\<close> block of \<open>reset_command\<close>.\<close>
definition reset_command_try :: "config \<Rightarrow> env \<Rightarrow> bot_state \<Rightarrow> int \<Rightarrow> result" where
  "reset_command_try cfg ev st user_id =
     (if is_blocked user_id then (st, [ReplyText ''A?''], None)
      else if authenticated_users st user_id = None then (st, [ReplyText NOT_AUTHENTICATED], None)
      else
        (let current_time = loop_time ev
         in case check_rate_limit st user_id current_time of
              Wait n \<Rightarrow> (st, [ReplyText (PLEASE_WAIT n)], None)
            | Ok \<Rightarrow>
                (let st1 = (if user_preferences st user_id \<noteq> None
                            then st\<lparr>user_preferences := (user_preferences st)(user_id := None)\<rparr>
                            else st)
                 in case update_identity cfg (tor ev) None of
                      (cmds, Inl e) \<Rightarrow> (st1, cmds, Some e)
                    | (cmds, Inr u) \<Rightarrow>
                        (st1\<lparr>user_last_update := (user_last_update st1)(user_id \<mapsto> current_time)\<rparr>,
                         cmds @ [ReplyText ''Your country preferences have been reset and Tor identity updated!''],
                         None))))"

text \<open>Lines 243-279.\<close>
definition reset_command :: "config \<Rightarrow> env \<Rightarrow> bot_state \<Rightarrow> int \<Rightarrow> result" where
  "reset_command cfg ev st user_id =
     (case reset_command_try cfg ev st user_id of
        (st', acts, Some e) \<Rightarrow>
          (st', acts @ [ReplyText ''An error occurred while resetting your preferences.''], None)
      | (st', acts, None) \<Rightarrow> (st', acts, None))"

text \<open>Lines 281-309.\<close>
definition countries_command ::
  "config \<Rightarrow> env \<Rightarrow> bot_state \<Rightarrow> int \<Rightarrow> string list \<Rightarrow> result" where
  "countries_command cfg ev st user_id args =
     (if is_blocked user_id then (st, [ReplyText ''You are not allowed to use this bot.''], None)
      else if authenticated_users st user_id = None then (st, [ReplyText NOT_AUTHENTICATED], None)
      else if length args > 0 then (st, [ReplyText ''Usage: /countries''], None)
      else
        (let countries_list = join '', '' (sorted_list_of_set (VALID_COUNTRIES cfg))
         in (st, [ReplyHtml (''Available countries:\<newline>'' @ countries_list)], None)))"

text \<open>Lines 318-330: the \<open>try\<close> block of \<open>inline_query_handler\<close>.\<close>
definition inline_query_try :: "config \<Rightarrow> env \<Rightarrow> bot_state \<Rightarrow> int \<Rightarrow> result" where
  "inline_query_try cfg ev st user_id =
     (if is_blocked user_id then (st, [AnswerInlineQuery []], None)
      else
        (case update_identity cfg (tor ev) None of
           (cmds, Inl e) \<Rightarrow> (st, cmds, Some e)
         | (cmds, Inr u) \<Rightarrow>
             (st, cmds @ [AnswerInlineQuery
                            [(''Update Tor Identity'', ''Your Tor identity has been updated!'')]],
              None)))"

text \<open>Lines 311-332: the \<open>except Exception\<close> clause only logs.\<close>
definition inline_query_handler ::
  "config \<Rightarrow> env \<Rightarrow> bot_state \<Rightarrow> int \<Rightarrow> string \<Rightarrow> result" where
  "inline_query_handler cfg ev st user_id query =
     (if query = [] then (st, [], None)
      else
        (case inline_query_try cfg ev st user_id of
           (st', acts, Some e) \<Rightarrow> (st', acts, None)
         | (st', acts, None) \<Rightarrow> (st', acts, None)))"

text \<open>Lines 335-340: the job logs its own failure.\<close>
definition tor_identity_update_job :: "config \<Rightarrow> env \<Rightarrow> action list \<times> tor_error option" where
  "tor_identity_update_job cfg ev =
     (case update_identity cfg (tor ev) None of
        (cmds, Inl e) \<Rightarrow> (cmds, None)
      | (cmds, Inr u) \<Rightarrow> (cmds, None))"

subsection \<open>The dispatcher\<close>

datatype command = Start | Help | Auth | Update | SetCountry | Reset | Countries

text \<open>
  What the dispatcher delivers: a command message with its sender and arguments, an
  inline query with its sender and text, or the job queue's timer coming due.
\<close>
datatype update = Message int command "string list" | InlineQuery int string | JobDue

text \<open>Lines 343-346: only an update with a message is answered.\<close>
definition error_handler :: "update \<Rightarrow> action list" where
  "error_handler upd =
     (case upd of
        Message user_id c args \<Rightarrow> [ReplyText ''An error occurred. Please try again later.'']
      | _ \<Rightarrow> [])"

text \<open>
  Lines 356-363, and the job queue of lines 367-371: a job scheduled with
  \<open>run_once\<close> leaves the queue when it runs.
\<close>
definition handle :: "config \<Rightarrow> env \<Rightarrow> bot_state \<Rightarrow> update \<Rightarrow> result" where
  "handle cfg ev st upd =
     (case upd of
        Message user_id Start args \<Rightarrow> start_command cfg ev st user_id
      | Message user_id Help args \<Rightarrow> help_command cfg ev st user_id
      | Message user_id Auth args \<Rightarrow> auth_command cfg ev st user_id args
      | Message user_id Update args \<Rightarrow> update_command cfg ev st user_id
      | Message user_id SetCountry args \<Rightarrow> set_country_command cfg ev st user_id args
      | Message user_id Reset args \<Rightarrow> reset_command cfg ev st user_id
      | Message user_id Countries args \<Rightarrow> countries_command cfg ev st user_id args
      | InlineQuery user_id query \<Rightarrow> inline_query_handler cfg ev st user_id query
      | JobDue \<Rightarrow>
          (case job_queue st of
             [] \<Rightarrow> (st, [], None)
           | j # js \<Rightarrow>
               (case tor_identity_update_job cfg ev of
                  (acts, exn) \<Rightarrow> (st\<lparr>job_queue := js\<rparr>, acts, exn))))"

text \<open>An exception that escapes a handler goes to the error handler (line 365).\<close>
definition process_update :: "config \<Rightarrow> env \<Rightarrow> bot_state \<Rightarrow> update \<Rightarrow> bot_state \<times> action list" where
  "process_update cfg ev st upd =
     (case handle cfg ev st upd of
        (st', acts, Some e) \<Rightarrow> (st', acts @ error_handler upd)
      | (st', acts, None) \<Rightarrow> (st', acts))"

text \<open>
  Lines 349-372: without a token \<open>main\<close> returns at once; otherwise it schedules one
  job with \<open>run_once\<close>, after \<open>initial_interval\<close> seconds (the value drawn by
  \<open>random.randint(2700, 4500)\<close>), and starts polling.
\<close>
definition main :: "config \<Rightarrow> nat \<Rightarrow> bot_state option" where
  "main cfg initial_interval =
     (case TELEGRAM_BOT_TOKEN cfg of
        None \<Rightarrow> None
      | Some token \<Rightarrow>
          if token = [] then None
          else Some (initial_state\<lparr>job_queue := job_queue initial_state @ [initial_interval]\<rparr>))"

text \<open>Polling: the updates are processed one after the other, each in its environment.\<close>
fun run :: "config \<Rightarrow> bot_state \<Rightarrow> (env \<times> update) list \<Rightarrow> bot_state \<times> action list" where
  "run cfg st [] = (st, [])"
| "run cfg st ((ev, upd) # rest) =
     (case process_update cfg ev st upd of
        (st', acts) \<Rightarrow> (case run cfg st' rest of (st'', acts') \<Rightarrow> (st'', acts @ acts')))"

subsection \<open>The invariant of the country preferences\<close>

text \<open>Every stored preference is one of the allowed countries.\<close>
definition preferences_valid :: "config \<Rightarrow> bot_state \<Rightarrow> bool" where
  "preferences_valid cfg st =
     (\<forall>u c. user_preferences st u = Some c \<longrightarrow> c \<in> VALID_COUNTRIES cfg)"

subsection \<open>Sample inputs\<close>

text \<open>A control port that accepts every command, and one that refuses the connection.\<close>
definition good_tor :: tor_daemon where
  "good_tor c = None"

definition refusing_tor :: tor_daemon where
  "refusing_tor c = (case c of FromPort p \<Rightarrow> Some SocketError | _ \<Rightarrow> None)"

definition env_at :: "rat \<Rightarrow> tor_daemon \<Rightarrow> env" where
  "env_at t daemon = \<lparr>loop_time = t, tor = daemon, easter_egg_exists = False\<rparr>"

text \<open>User 7 has authenticated; in the second state the user also prefers Japan.\<close>
definition authenticated_state :: bot_state where
  "authenticated_state = initial_state\<lparr>authenticated_users := [7 \<mapsto> True]\<rparr>"

definition japan_state :: bot_state where
  "japan_state = authenticated_state\<lparr>user_preferences := [7 \<mapsto> ''JP'']\<rparr>"

text \<open>User 7 rotated at time 1000.\<close>
definition rotated_state :: bot_state where
  "rotated_state = authenticated_state\<lparr>user_last_update := [7 \<mapsto> 1000]\<rparr>"

text \<open>The state that \<open>main\<close> leaves when the drawn interval is 3000 seconds.\<close>
definition scheduled_state :: bot_state where
  "scheduled_state = initial_state\<lparr>job_queue := [3000]\<rparr>"

definition timer_only :: "(env \<times> update) list \<Rightarrow> bool" where
  "timer_only evs = list_all (\<lambda>x. snd x = JobDue) evs"

section \<open>Properties\<close>

subsection \<open>Facts about the sample inputs\<close>

lemma user_7_not_blocked: "\<not> is_blocked 7"
  by (simp add: is_blocked_def BLOCKED_USER_IDS_def)

lemma user_123456789_blocked: "is_blocked 123456789"
  by (simp add: is_blocked_def BLOCKED_USER_IDS_def)

lemma jp_allowed: "upper default_config ''jp'' \<in> VALID_COUNTRIES default_config"
  by code_simp

lemma upper_jp: "upper default_config ''jp'' = ''JP''"
  by code_simp


lemma good_tor_rotates: "snd (update_identity default_config good_tor p) = Inr ()"
  by (simp add: update_identity_def good_tor_def Let_def)

lemma refusing_tor_raises:
  "update_identity default_config refusing_tor p = ([Ctl (FromPort 9051)], Inl SocketError)"
  by (simp add: update_identity_def refusing_tor_def default_config_def Let_def)

lemma authenticated_state_simps:
  "authenticated_users authenticated_state 7 = Some True"
  "user_preferences authenticated_state = Map.empty"
  "user_last_update authenticated_state = Map.empty"
  by (simp_all add: authenticated_state_def initial_state_def)

subsection \<open>Helper lemmas\<close>

lemmas handler_defs =
  start_command_def help_command_def auth_command_def update_command_def update_command_try_def
  set_country_command_def reset_command_def reset_command_try_def countries_command_def
  inline_query_handler_def inline_query_try_def

lemma rotations_append: "rotations (xs @ ys) = rotations xs + rotations ys"
  by (simp add: rotations_def)

lemma rotations_update_identity: "rotations (fst (update_identity cfg daemon p)) = 1"
  by (simp add: update_identity_def rotations_def is_connect_def Let_def split: option.splits)

lemma check_rate_limit_cong:
  "user_last_update st' u = user_last_update st u \<Longrightarrow>
   check_rate_limit st' u t = check_rate_limit st u t"
  by (simp add: check_rate_limit_def)

lemma check_rate_limit_recent:
  "user_last_update st u = Some t1 \<Longrightarrow> t2 - t1 < RATE_LIMIT \<Longrightarrow>
   check_rate_limit st u t2 = Wait \<lfloor>RATE_LIMIT - (t2 - t1)\<rfloor>"
  by (simp add: check_rate_limit_def py_int_def Let_def)

lemma floor_wait_bounds:
  "(t2::rat) - t1 < RATE_LIMIT \<Longrightarrow> 0 \<le> \<lfloor>RATE_LIMIT - (t2 - t1)\<rfloor>"
  "(t2::rat) - t1 \<le> RATE_LIMIT - 1 \<Longrightarrow> 1 \<le> \<lfloor>RATE_LIMIT - (t2 - t1)\<rfloor>"
  by (simp_all add: le_floor_iff)

lemma update_command_failure:
  assumes "\<not> is_blocked u" "authenticated_users st u \<noteq> None"
    "check_rate_limit st u (loop_time ev) = Ok"
    "snd (update_identity cfg (tor ev) (user_preferences st u)) = Inl e"
  shows "update_command cfg ev st u =
     (st, fst (update_identity cfg (tor ev) (user_preferences st u)) @
          [ReplyText ''An error occurred while updating your identity.''], None)"
  using assms
  by (cases "update_identity cfg (tor ev) (user_preferences st u)")
     (auto simp add: update_command_def update_command_try_def Let_def)

lemma update_command_success:
  assumes "\<not> is_blocked u" "authenticated_users st u \<noteq> None"
    "check_rate_limit st u (loop_time ev) = Ok"
    "snd (update_identity cfg (tor ev) (user_preferences st u)) = Inr x"
  shows "update_command cfg ev st u =
     (st\<lparr>user_last_update := (user_last_update st)(u \<mapsto> loop_time ev)\<rparr>,
      fst (update_identity cfg (tor ev) (user_preferences st u)) @
          [ReplyText ''Your Tor identity has been updated!''], None)"
  using assms
  by (cases "update_identity cfg (tor ev) (user_preferences st u)")
     (auto simp add: update_command_def update_command_try_def Let_def)

lemma update_command_limited:
  assumes "\<not> is_blocked u" "authenticated_users st u \<noteq> None"
    "check_rate_limit st u (loop_time ev) = Wait n"
  shows "update_command cfg ev st u = (st, [ReplyText (PLEASE_WAIT n)], None)"
  using assms by (auto simp add: update_command_def update_command_try_def)

lemma reset_command_failure:
  assumes "\<not> is_blocked u" "authenticated_users st u \<noteq> None"
    "check_rate_limit st u (loop_time ev) = Ok"
    "snd (update_identity cfg (tor ev) None) = Inl e"
  shows "reset_command cfg ev st u =
     (st\<lparr>user_preferences := (user_preferences st)(u := None)\<rparr>,
      fst (update_identity cfg (tor ev) None) @
          [ReplyText ''An error occurred while resetting your preferences.''], None)"
proof -
  have "user_preferences st u = None \<Longrightarrow>
        st\<lparr>user_preferences := (user_preferences st)(u := None)\<rparr> = st"
    by (simp add: fun_upd_idem)
  with assms show ?thesis
    by (cases "update_identity cfg (tor ev) None")
       (auto simp add: reset_command_def reset_command_try_def Let_def)
qed

lemma inline_query_failure:
  assumes "\<not> is_blocked u" "q \<noteq> []" "snd (update_identity cfg (tor ev) None) = Inl e"
  shows "inline_query_handler cfg ev st u q = (st, fst (update_identity cfg (tor ev) None), None)"
  using assms
  by (cases "update_identity cfg (tor ev) None")
     (auto simp add: inline_query_handler_def inline_query_try_def)

lemma set_country_command_valid:
  "\<not> is_blocked u \<Longrightarrow> authenticated_users st u \<noteq> None \<Longrightarrow> upper cfg code \<in> VALID_COUNTRIES cfg \<Longrightarrow>
   set_country_command cfg ev st u [code] =
        (st\<lparr>user_preferences := (user_preferences st)(u \<mapsto> upper cfg code)\<rparr>,
         [ReplyText (''Preferred country set to: '' @ upper cfg code)], None)"
  by (auto simp add: set_country_command_def Let_def)

lemma fst_process_update: "fst (process_update cfg ev st upd) = fst (handle cfg ev st upd)"
  by (simp add: process_update_def split: prod.splits option.splits)

lemma run_three:
  "handle cfg e0 st u0 = (s1, a0, None) \<Longrightarrow> handle cfg e1 s1 u1 = (s2, a1, None) \<Longrightarrow>
   handle cfg e2 s2 u2 = (s3, a2, None) \<Longrightarrow>
   run cfg st [(e0, u0), (e1, u1), (e2, u2)] = (s3, a0 @ a1 @ a2)"
  by (simp add: process_update_def)

lemma handle_preferences_valid:
  "preferences_valid cfg st \<Longrightarrow> preferences_valid cfg (fst (handle cfg ev st upd))"
proof (cases upd)
  case (Message u c args)
  then show "preferences_valid cfg st \<Longrightarrow> ?thesis"
    by (cases c) (auto simp add: handle_def handler_defs preferences_valid_def Let_def
        split: prod.splits sum.splits rate_result.splits if_splits)
next
  case (InlineQuery u q)
  then show "preferences_valid cfg st \<Longrightarrow> ?thesis"
    by (auto simp add: handle_def handler_defs split: prod.splits sum.splits)
next
  case JobDue
  then show "preferences_valid cfg st \<Longrightarrow> ?thesis"
    by (auto simp add: handle_def tor_identity_update_job_def preferences_valid_def
        split: list.splits prod.splits sum.splits)
qed

lemma run_preferences_valid:
  "preferences_valid cfg st \<Longrightarrow> preferences_valid cfg (fst (run cfg st evs))"
proof (induction evs arbitrary: st)
  case Nil
  then show ?case by simp
next
  case (Cons x evs)
  obtain ev upd where x: "x = (ev, upd)" by (cases x)
  have "preferences_valid cfg (fst (process_update cfg ev st upd))"
    using Cons.prems by (simp add: fst_process_update handle_preferences_valid)
  then have "preferences_valid cfg (fst (run cfg (fst (process_update cfg ev st upd)) evs))"
    by (rule Cons.IH)
  then show ?case
    by (cases "process_update cfg ev st upd"; cases "run cfg (fst (process_update cfg ev st upd)) evs")
       (simp add: x)
qed

lemma initial_preferences_valid: "preferences_valid cfg initial_state"
  by (simp add: preferences_valid_def initial_state_def)

lemma main_preferences_valid: "main cfg i = Some st0 \<Longrightarrow> preferences_valid cfg st0"
  by (auto simp add: main_def preferences_valid_def initial_state_def
      split: option.splits if_splits)

lemma other_updates_keep_preferences:
  "\<forall>u a. upd \<noteq> Message u SetCountry a \<and> upd \<noteq> Message u Reset a \<Longrightarrow>
   user_preferences (fst (handle cfg ev st upd)) = user_preferences st"
proof (cases upd)
  case (Message u c args)
  then show "\<forall>u a. upd \<noteq> Message u SetCountry a \<and> upd \<noteq> Message u Reset a \<Longrightarrow> ?thesis"
    by (cases c) (auto simp add: handle_def handler_defs Let_def
        split: prod.splits sum.splits rate_result.splits)
next
  case (InlineQuery u q)
  then show "\<forall>u a. upd \<noteq> Message u SetCountry a \<and> upd \<noteq> Message u Reset a \<Longrightarrow> ?thesis"
    by (auto simp add: handle_def handler_defs split: prod.splits sum.splits)
next
  case JobDue
  then show "\<forall>u a. upd \<noteq> Message u SetCountry a \<and> upd \<noteq> Message u Reset a \<Longrightarrow> ?thesis"
    by (auto simp add: handle_def tor_identity_update_job_def
        split: list.splits prod.splits sum.splits)
qed

lemma reset_only_removes:
  "user_preferences (fst (reset_command cfg ev st u)) = user_preferences st
   \<or> user_preferences (fst (reset_command cfg ev st u)) = (user_preferences st)(u := None)"
  by (auto simp add: reset_command_def reset_command_try_def Let_def
      split: prod.splits sum.splits rate_result.splits option.splits)

lemma set_country_inserts_verified:
  "user_preferences (fst (set_country_command cfg ev st u args)) = user_preferences st
   \<or> (\<exists>code. args = [code] \<and> upper cfg code \<in> VALID_COUNTRIES cfg \<and>
        user_preferences (fst (set_country_command cfg ev st u args)) =
          (user_preferences st)(u \<mapsto> upper cfg code))"
proof (cases args)
  case Nil
  then show ?thesis by (simp add: set_country_command_def)
next
  case (Cons code rest)
  then show ?thesis by (cases rest) (auto simp add: set_country_command_def Let_def)
qed

lemma timer_only_rotations:
  "timer_only evs \<Longrightarrow> rotations (snd (run cfg st evs)) \<le> length (job_queue st)"
proof (induction evs arbitrary: st)
  case Nil
  then show ?case by (simp add: rotations_def)
next
  case (Cons x evs)
  obtain ev where x: "x = (ev, JobDue)"
    using Cons.prems by (cases x) (simp add: timer_only_def)
  have rest: "timer_only evs"
    using Cons.prems by (simp add: timer_only_def)
  show ?case
  proof (cases "job_queue st")
    case Nil
    have "process_update cfg ev st JobDue = (st, [])"
      using Nil by (simp add: process_update_def handle_def)
    moreover have "rotations (snd (run cfg st evs)) \<le> length (job_queue st)"
      using rest by (rule Cons.IH)
    ultimately show ?thesis
      by (cases "run cfg st evs") (simp add: x)
  next
    case (Cons j js)
    define cmds where "cmds = fst (update_identity cfg (tor ev) None)"
    have step: "process_update cfg ev st JobDue = (st\<lparr>job_queue := js\<rparr>, cmds)"
      using Cons
      by (cases "update_identity cfg (tor ev) None")
         (auto simp add: process_update_def handle_def tor_identity_update_job_def cmds_def
          split: sum.splits)
    have one: "rotations cmds = 1"
      unfolding cmds_def by (rule rotations_update_identity)
    have "rotations (snd (run cfg (st\<lparr>job_queue := js\<rparr>) evs)) \<le> length (job_queue (st\<lparr>job_queue := js\<rparr>))"
      using rest by (rule Cons.IH)
    then have "rotations (snd (run cfg (st\<lparr>job_queue := js\<rparr>) evs)) \<le> length js"
      by simp
    then show ?thesis
      using one Cons
      by (cases "run cfg (st\<lparr>job_queue := js\<rparr>) evs") (simp add: x step rotations_append)
  qed
qed

subsection \<open>Blocked users\<close>

text \<open>
  Claim C2. For a blocked user every command handler, and the inline query handler,
  returns with the state as it was; what it sends does not depend on the state, so
  none of the three dictionaries was read; and the control port is not called.
\<close>
theorem blocked_short_circuit:
  "is_blocked u \<Longrightarrow>
   fst (handle cfg ev st (Message u c args)) = st
   \<and> fst (handle cfg ev st (InlineQuery u q)) = st
   \<and> snd (handle cfg ev st (Message u c args)) = snd (handle cfg ev st' (Message u c args))
   \<and> snd (handle cfg ev st (InlineQuery u q)) = snd (handle cfg ev st' (InlineQuery u q))
   \<and> rotations (fst (snd (handle cfg ev st (Message u c args)))) = 0
   \<and> rotations (fst (snd (handle cfg ev st (InlineQuery u q)))) = 0"
  by (cases c) (simp_all add: handle_def handler_defs rotations_def is_connect_def)

theorem blocked_short_circuit_witness:
  "is_blocked 123456789
   \<and> fst (handle default_config (env_at 1000 good_tor) japan_state
            (Message 123456789 Reset [])) = japan_state
   \<and> snd (handle default_config (env_at 1000 good_tor) japan_state (Message 123456789 Reset []))
     = snd (handle default_config (env_at 1000 good_tor) initial_state (Message 123456789 Reset []))
   \<and> rotations (fst (snd (handle default_config (env_at 1000 good_tor) japan_state
                            (InlineQuery 123456789 ''go'')))) = 0"
  using user_123456789_blocked
    blocked_short_circuit [OF user_123456789_blocked, where cfg = default_config
      and ev = "env_at 1000 good_tor" and st = japan_state and st' = initial_state
      and c = Reset and args = "[]" and q = "''go''"]
  by blast

subsection \<open>Authentication\<close>

text \<open>
  Claim C3. For a user who is not blocked, \<open>/auth\<close> looks at the membership in
  \<open>authenticated_users\<close> before it counts the arguments: a user already in the
  dictionary is told so whatever the arguments are. For a user not yet in it, one
  argument that equals the configured password after stripping inserts the user with
  value \<open>True\<close> and reports success, and every later \<open>/auth\<close> of that user
  reports that the user is already authenticated; one argument that differs from the
  password reports a wrong password and leaves the state as it was.
\<close>
theorem auth_command_membership_first:
  "\<not> is_blocked u \<Longrightarrow>
   (authenticated_users st u \<noteq> None \<longrightarrow>
      auth_command cfg ev st u args = (st, [ReplyText ''You are already authenticated.''], None))
   \<and> (authenticated_users st u = None \<and> strip pwa = strip (AUTH_PASSWORD cfg) \<longrightarrow>
        auth_command cfg ev st u [pwa] =
          (st\<lparr>authenticated_users := (authenticated_users st)(u \<mapsto> True)\<rparr>,
           [ReplyText ''Authentication successful! Now you can use commands.''], None)
        \<and> auth_command cfg ev' (fst (auth_command cfg ev st u [pwa])) u args =
          (fst (auth_command cfg ev st u [pwa]), [ReplyText ''You are already authenticated.''], None))
   \<and> (authenticated_users st u = None \<and> strip pwb \<noteq> strip (AUTH_PASSWORD cfg) \<longrightarrow>
        auth_command cfg ev st u [pwb] =
          (st, [ReplyText ''Incorrect password. Please try again.''], None))"
  by (simp add: auth_command_def)

lemma sample_passwords:
  "strip '' AUTHENTICATE_PASSWORD_MUST_BE_HERE'' = strip (AUTH_PASSWORD default_config)"
  "strip ''guess'' \<noteq> strip (AUTH_PASSWORD default_config)"
  by code_simp+

theorem auth_command_membership_first_witness:
  "\<not> is_blocked 7 \<and> authenticated_users initial_state 7 = None
   \<and> auth_command default_config (env_at 1000 good_tor) initial_state 7
        ['' AUTHENTICATE_PASSWORD_MUST_BE_HERE''] =
       (authenticated_state, [ReplyText ''Authentication successful! Now you can use commands.''],
        None)
   \<and> auth_command default_config (env_at 1001 good_tor) authenticated_state 7 [''guess''] =
       (authenticated_state, [ReplyText ''You are already authenticated.''], None)
   \<and> auth_command default_config (env_at 1000 good_tor) initial_state 7 [''guess''] =
       (initial_state, [ReplyText ''Incorrect password. Please try again.''], None)"
proof -
  have none: "authenticated_users initial_state 7 = None"
    by (simp add: initial_state_def)
  have some: "authenticated_users authenticated_state 7 \<noteq> None"
    by (simp add: authenticated_state_simps)
  note first = auth_command_membership_first [OF user_7_not_blocked, where cfg = default_config
      and st = initial_state and ev = "env_at 1000 good_tor"
      and pwa = "'' AUTHENTICATE_PASSWORD_MUST_BE_HERE''" and pwb = "''guess''"]
  note again = auth_command_membership_first [OF user_7_not_blocked, where cfg = default_config
      and st = authenticated_state and ev = "env_at 1001 good_tor" and args = "[''guess'']"]
  have "auth_command default_config (env_at 1000 good_tor) initial_state 7
          ['' AUTHENTICATE_PASSWORD_MUST_BE_HERE''] =
        (initial_state\<lparr>authenticated_users := (authenticated_users initial_state)(7 \<mapsto> True)\<rparr>,
         [ReplyText ''Authentication successful! Now you can use commands.''], None)"
    using first none sample_passwords(1) by blast
  moreover have "initial_state\<lparr>authenticated_users := (authenticated_users initial_state)(7 \<mapsto> True)\<rparr>
      = authenticated_state"
    by (simp add: authenticated_state_def initial_state_def)
  moreover have "auth_command default_config (env_at 1001 good_tor) authenticated_state 7 [''guess''] =
       (authenticated_state, [ReplyText ''You are already authenticated.''], None)"
    using again some by blast
  moreover have "auth_command default_config (env_at 1000 good_tor) initial_state 7 [''guess''] =
       (initial_state, [ReplyText ''Incorrect password. Please try again.''], None)"
    using first none sample_passwords(2) by blast
  ultimately show ?thesis
    using user_7_not_blocked none by simp
qed

subsection \<open>The rate limit\<close>

text \<open>
  Claim C4. The rate-limit check computes the time elapsed since the user's last
  recorded rotation, taking 0 when there is none; below 300 seconds it yields
  \<open>Wait\<close> with the remaining time rounded down to whole seconds, otherwise
  \<open>Ok\<close>. With the last rotation at \<open>T\<close>, the check at \<open>T + 100\<close> gives
  \<open>Wait 200\<close> and at \<open>T + 300\<close> gives \<open>Ok\<close>. The check is a function of the
  state, and a command that it turns away leaves the state as it was.
\<close>
theorem check_rate_limit_spec:
  "check_rate_limit st u now =
     (let elapsed = now - (case user_last_update st u of None \<Rightarrow> 0 | Some t \<Rightarrow> t)
      in if elapsed < 300 then Wait \<lfloor>300 - elapsed\<rfloor> else Ok)
   \<and> (user_last_update st u = Some T \<longrightarrow>
        check_rate_limit st u (T + 100) = Wait 200 \<and> check_rate_limit st u (T + 300) = Ok)
   \<and> (check_rate_limit st u (loop_time ev) \<noteq> Ok \<longrightarrow>
        fst (update_command cfg ev st u) = st \<and> fst (reset_command cfg ev st u) = st)"
  by (auto simp add: check_rate_limit_def RATE_LIMIT_def py_int_def Let_def
      update_command_def update_command_try_def reset_command_def reset_command_try_def
      split: option.splits rate_result.splits)

theorem check_rate_limit_spec_witness:
  "user_last_update rotated_state 7 = Some 1000
   \<and> check_rate_limit rotated_state 7 (1000 + 100) = Wait 200
   \<and> check_rate_limit rotated_state 7 (1000 + 300) = Ok
   \<and> check_rate_limit rotated_state 7 (loop_time (env_at 1100 good_tor)) \<noteq> Ok
   \<and> fst (update_command default_config (env_at 1100 good_tor) rotated_state 7) = rotated_state
   \<and> fst (reset_command default_config (env_at 1100 good_tor) rotated_state 7) = rotated_state"
proof -
  have last: "user_last_update rotated_state 7 = Some 1000"
    by (simp add: rotated_state_def)
  have limited: "check_rate_limit rotated_state 7 (loop_time (env_at 1100 good_tor)) \<noteq> Ok"
    by (simp add: check_rate_limit_def last env_at_def RATE_LIMIT_def Let_def)
  show ?thesis
    using last limited
      check_rate_limit_spec [where st = rotated_state and u = 7 and T = 1000
        and ev = "env_at 1100 good_tor" and cfg = default_config]
    by blast
qed

subsection \<open>Setting the country\<close>

text \<open>
  Claim C6. For an authenticated user who is not blocked, \<open>/setcountry\<close> with an
  argument count other than one replies with the usage line and changes nothing; with
  one argument the code is put in upper case by \<open>str.upper()\<close>; if the result is not
  an allowed country the reply says so and the state, the user's preference included,
  is as it was; otherwise the user's preference is set to the upper-case code, replacing
  any earlier one, and the reply names the upper-case code. What is tested and stored
  is the upper-case form: a code that \<open>str.upper()\<close> sends to an allowed country is
  accepted whatever its own letters are, lower-case or outside ASCII.
\<close>
theorem set_country_command_spec:
  "\<not> is_blocked u \<Longrightarrow> authenticated_users st u \<noteq> None \<Longrightarrow>
   (length args \<noteq> 1 \<longrightarrow>
      set_country_command cfg ev st u args =
        (st, [ReplyText ''Usage: /setcountry <country_code>''], None))
   \<and> (upper cfg code \<notin> VALID_COUNTRIES cfg \<longrightarrow>
      set_country_command cfg ev st u [code] =
        (st, [ReplyText ''Invalid country code. Please use a two letter ISO code of country (e.g., US, JP, KR).''],
         None))
   \<and> (upper cfg code \<in> VALID_COUNTRIES cfg \<longrightarrow>
      set_country_command cfg ev st u [code] =
        (st\<lparr>user_preferences := (user_preferences st)(u \<mapsto> upper cfg code)\<rparr>,
         [ReplyText (''Preferred country set to: '' @ upper cfg code)], None))"
  by (auto simp add: set_country_command_def Let_def)

text \<open>
  With the default configuration: \<open>/setcountry jp\<close> stores \<open>JP\<close> for a user without a
  preference, \<open>/setcountry de\<close> replaces a stored \<open>JP\<close> by \<open>DE\<close>, \<open>/setcountry zz\<close> is
  refused and the stored \<open>JP\<close> stays, and two arguments give the usage line.
\<close>
theorem set_country_command_spec_witness:
  "\<not> is_blocked 7 \<and> authenticated_users authenticated_state 7 \<noteq> None
   \<and> authenticated_users japan_state 7 \<noteq> None
   \<and> user_preferences authenticated_state 7 = None
   \<and> user_preferences japan_state 7 = Some ''JP''
   \<and> upper default_config ''jp'' = ''JP'' \<and> ''JP'' \<in> VALID_COUNTRIES default_config
   \<and> ''jp'' \<notin> VALID_COUNTRIES default_config
   \<and> set_country_command default_config (env_at 1000 good_tor) authenticated_state 7 [''jp''] =
       (authenticated_state\<lparr>user_preferences := [7 \<mapsto> ''JP'']\<rparr>,
        [ReplyText ''Preferred country set to: JP''], None)
   \<and> upper default_config ''de'' = ''DE'' \<and> ''DE'' \<in> VALID_COUNTRIES default_config
   \<and> set_country_command default_config (env_at 1000 good_tor) japan_state 7 [''de''] =
       (japan_state\<lparr>user_preferences := [7 \<mapsto> ''DE'']\<rparr>,
        [ReplyText ''Preferred country set to: DE''], None)
   \<and> upper default_config ''zz'' = ''ZZ'' \<and> ''ZZ'' \<notin> VALID_COUNTRIES default_config
   \<and> set_country_command default_config (env_at 1000 good_tor) japan_state 7 [''zz''] =
       (japan_state,
        [ReplyText ''Invalid country code. Please use a two letter ISO code of country (e.g., US, JP, KR).''],
        None)
   \<and> user_preferences
        (fst (set_country_command default_config (env_at 1000 good_tor) japan_state 7 [''zz''])) 7 =
       Some ''JP''
   \<and> set_country_command default_config (env_at 1000 good_tor) japan_state 7 [''jp'', ''de''] =
       (japan_state, [ReplyText ''Usage: /setcountry <country_code>''], None)"
proof -
  have aua: "authenticated_users authenticated_state 7 \<noteq> None"
    by (simp add: authenticated_state_simps)
  have auj: "authenticated_users japan_state 7 \<noteq> None"
    by (simp add: japan_state_def authenticated_state_def initial_state_def)
  have prefa: "user_preferences authenticated_state = Map.empty"
    by (simp add: authenticated_state_def initial_state_def)
  have prefj: "user_preferences japan_state = [7 \<mapsto> ''JP'']"
    by (simp add: japan_state_def)
  have len: "length [''jp'', ''de''] \<noteq> 1"
    by simp
  have sample_upper:
    "upper default_config ''jp'' = ''JP''"
    "upper default_config ''de'' = ''DE''"
    "upper default_config ''zz'' = ''ZZ''"
    by code_simp+
  have sample_countries:
    "''JP'' \<in> VALID_COUNTRIES default_config"
    "''DE'' \<in> VALID_COUNTRIES default_config"
    "''ZZ'' \<notin> VALID_COUNTRIES default_config"
    "''jp'' \<notin> VALID_COUNTRIES default_config"
    by code_simp+
  note jp = set_country_command_spec [OF user_7_not_blocked aua, where cfg = default_config
      and ev = "env_at 1000 good_tor" and code = "''jp''" and args = "[]"]
  note de = set_country_command_spec [OF user_7_not_blocked auj, where cfg = default_config
      and ev = "env_at 1000 good_tor" and code = "''de''" and args = "[''jp'', ''de'']"]
  note zz = set_country_command_spec [OF user_7_not_blocked auj, where cfg = default_config
      and ev = "env_at 1000 good_tor" and code = "''zz''" and args = "[''jp'', ''de'']"]
  have stored: "set_country_command default_config (env_at 1000 good_tor) authenticated_state 7
        [''jp''] =
      (authenticated_state\<lparr>user_preferences := [7 \<mapsto> ''JP'']\<rparr>,
       [ReplyText ''Preferred country set to: JP''], None)"
    using jp sample_upper sample_countries by (simp add: prefa)
  have replaced: "set_country_command default_config (env_at 1000 good_tor) japan_state 7
        [''de''] =
      (japan_state\<lparr>user_preferences := [7 \<mapsto> ''DE'']\<rparr>,
       [ReplyText ''Preferred country set to: DE''], None)"
    using de sample_upper sample_countries by (simp add: prefj)
  have refused: "set_country_command default_config (env_at 1000 good_tor) japan_state 7
        [''zz''] =
      (japan_state,
       [ReplyText ''Invalid country code. Please use a two letter ISO code of country (e.g., US, JP, KR).''],
       None)"
    using zz sample_upper sample_countries by simp
  have usage: "set_country_command default_config (env_at 1000 good_tor) japan_state 7
        [''jp'', ''de''] =
      (japan_state, [ReplyText ''Usage: /setcountry <country_code>''], None)"
    using de len by blast
  show ?thesis
    using user_7_not_blocked aua auj sample_upper sample_countries stored replaced refused usage
    by (simp add: prefa prefj)
qed

subsection \<open>Rotation with an absent or invalid country\<close>



subsection \<open>A failed reset\<close>

text \<open>
  Claim C9. For an authenticated user who is not blocked and not rate limited and
  who has a country preference: when the rotation of \<open>/reset\<close> raises, the
  preference is gone all the same. It was deleted before the rotation was tried and
  the exception handler only replies, so the resulting state is the old one without
  the preference, and no rotation time is recorded.
\<close>
theorem reset_failure_not_atomic:
  "\<not> is_blocked u \<Longrightarrow> authenticated_users st u \<noteq> None \<Longrightarrow>
   check_rate_limit st u (loop_time ev) = Ok \<Longrightarrow> user_preferences st u = Some c \<Longrightarrow>
   snd (update_identity cfg (tor ev) None) = Inl e \<Longrightarrow>
   reset_command cfg ev st u =
     (st\<lparr>user_preferences := (user_preferences st)(u := None)\<rparr>,
      fst (update_identity cfg (tor ev) None) @
        [ReplyText ''An error occurred while resetting your preferences.''], None)
   \<and> user_preferences (fst (reset_command cfg ev st u)) u = None
   \<and> user_last_update (fst (reset_command cfg ev st u)) = user_last_update st"
  by (simp add: reset_command_failure)

lemma japan_state_simps:
  "authenticated_users japan_state 7 = Some True"
  "user_preferences japan_state 7 = Some ''JP''"
  "user_last_update japan_state = Map.empty"
  by (simp_all add: japan_state_def authenticated_state_def initial_state_def)

lemma japan_state_not_limited: "check_rate_limit japan_state 7 1000 = Ok"
  by (simp add: check_rate_limit_def japan_state_simps RATE_LIMIT_def)

theorem reset_failure_not_atomic_witness:
  "\<not> is_blocked 7 \<and> authenticated_users japan_state 7 \<noteq> None
   \<and> check_rate_limit japan_state 7 (loop_time (env_at 1000 refusing_tor)) = Ok
   \<and> user_preferences japan_state 7 = Some ''JP''
   \<and> snd (update_identity default_config (tor (env_at 1000 refusing_tor)) None) = Inl SocketError
   \<and> user_preferences (fst (reset_command default_config (env_at 1000 refusing_tor) japan_state 7)) 7
       = None
   \<and> user_last_update (fst (reset_command default_config (env_at 1000 refusing_tor) japan_state 7))
       = user_last_update japan_state"
proof -
  have au: "authenticated_users japan_state 7 \<noteq> None"
    by (simp add: japan_state_simps)
  have rate: "check_rate_limit japan_state 7 (loop_time (env_at 1000 refusing_tor)) = Ok"
    by (simp add: env_at_def japan_state_not_limited)
  have raises: "snd (update_identity default_config (tor (env_at 1000 refusing_tor)) None)
      = Inl SocketError"
    by (simp add: env_at_def refusing_tor_raises)
  show ?thesis
    using user_7_not_blocked au rate japan_state_simps(2) raises
      reset_failure_not_atomic [OF user_7_not_blocked au rate japan_state_simps(2) raises]
    by blast
qed

subsection \<open>A rotation that raises\<close>

text \<open>
  Claim C1, as the code has it. When the rotation raises in \<open>/update\<close> or
  \<open>/reset\<close>, no rotation time is written, the exception does not leave the
  handler, and the last thing sent is the handler's failure notice. When it raises
  in the inline query handler, the exception does not leave the handler either and
  the state is as it was (that handler never writes a rotation time).
\<close>
theorem rotation_failure_handling:
  "\<not> is_blocked u \<Longrightarrow>
   (authenticated_users st u \<noteq> None \<and> check_rate_limit st u (loop_time ev) = Ok \<and>
    snd (update_identity cfg (tor ev) (user_preferences st u)) = Inl e \<longrightarrow>
      update_command cfg ev st u =
        (st, fst (update_identity cfg (tor ev) (user_preferences st u)) @
             [ReplyText ''An error occurred while updating your identity.''], None))
   \<and> (authenticated_users st u \<noteq> None \<and> check_rate_limit st u (loop_time ev) = Ok \<and>
      snd (update_identity cfg (tor ev) None) = Inl e \<longrightarrow>
      reset_command cfg ev st u =
        (st\<lparr>user_preferences := (user_preferences st)(u := None)\<rparr>,
         fst (update_identity cfg (tor ev) None) @
             [ReplyText ''An error occurred while resetting your preferences.''], None))
   \<and> (q \<noteq> [] \<and> snd (update_identity cfg (tor ev) None) = Inl e \<longrightarrow>
      fst (inline_query_handler cfg ev st u q) = st
      \<and> snd (snd (inline_query_handler cfg ev st u q)) = None)"
  by (simp add: update_command_failure reset_command_failure inline_query_failure)

theorem rotation_failure_handling_witness:
  "\<not> is_blocked 7 \<and> authenticated_users japan_state 7 \<noteq> None
   \<and> check_rate_limit japan_state 7 (loop_time (env_at 1000 refusing_tor)) = Ok
   \<and> snd (update_identity default_config (tor (env_at 1000 refusing_tor))
            (user_preferences japan_state 7)) = Inl SocketError
   \<and> update_command default_config (env_at 1000 refusing_tor) japan_state 7 =
       (japan_state,
        fst (update_identity default_config (tor (env_at 1000 refusing_tor))
               (user_preferences japan_state 7)) @
        [ReplyText ''An error occurred while updating your identity.''], None)"
proof -
  have au: "authenticated_users japan_state 7 \<noteq> None"
    by (simp add: japan_state_simps)
  have rate: "check_rate_limit japan_state 7 (loop_time (env_at 1000 refusing_tor)) = Ok"
    by (simp add: env_at_def japan_state_not_limited)
  have raises: "snd (update_identity default_config (tor (env_at 1000 refusing_tor))
      (user_preferences japan_state 7)) = Inl SocketError"
    by (simp add: env_at_def refusing_tor_raises)
  show ?thesis
    using user_7_not_blocked au rate raises
      rotation_failure_handling [OF user_7_not_blocked, where st = japan_state
        and ev = "env_at 1000 refusing_tor" and cfg = default_config and e = SocketError]
    by blast
qed

text \<open>
  Against claim C1 as stated: user 7 is not blocked and sends a non-empty inline
  query while the control port refuses the connection. The rotation raises, and all
  the handler does is the attempt to connect: nothing is sent to the caller.
\<close>
theorem inline_rotation_failure_no_notice:
  "\<not> is_blocked 7
   \<and> update_identity default_config refusing_tor None = ([Ctl (FromPort 9051)], Inl SocketError)
   \<and> snd (inline_query_handler default_config (env_at 1000 refusing_tor) authenticated_state 7
            ''rotate'') = ([Ctl (FromPort 9051)], None)
   \<and> filter is_notice [Ctl (FromPort 9051)] = []"
  by (simp add: user_7_not_blocked refusing_tor_raises inline_query_handler_def
      inline_query_try_def env_at_def is_notice_def)

subsection \<open>Two updates within the rate window\<close>

text \<open>
  Claim C5, as the code has it. An authenticated user who is not blocked sets a valid
  country and sends \<open>/update\<close> twice, the second time less than 300 seconds after
  the first. If the first \<open>/update\<close> is not itself rate limited and its rotation
  succeeds, then the second reply asks to wait the remaining time truncated to whole
  seconds, a number that is never negative and is at least one when a full second
  remains, and the control port is called exactly once over the three commands.
\<close>
theorem update_twice_in_window:
  assumes nb: "\<not> is_blocked u" and au: "authenticated_users st u \<noteq> None"
    and valid: "upper cfg code \<in> VALID_COUNTRIES cfg"
    and first: "check_rate_limit st u (loop_time eb) = Ok"
    and ok: "snd (update_identity cfg (tor eb) (Some (upper cfg code))) = Inr ()"
    and window: "loop_time ec - loop_time eb < RATE_LIMIT"
  shows "snd (run cfg st [(ea, Message u SetCountry [code]), (eb, Message u Update argsb),
                          (ec, Message u Update argsc)]) =
           [ReplyText (''Preferred country set to: '' @ upper cfg code)] @
           (fst (update_identity cfg (tor eb) (Some (upper cfg code))) @
            [ReplyText ''Your Tor identity has been updated!'']) @
           [ReplyText (PLEASE_WAIT \<lfloor>RATE_LIMIT - (loop_time ec - loop_time eb)\<rfloor>)]
         \<and> 0 \<le> \<lfloor>RATE_LIMIT - (loop_time ec - loop_time eb)\<rfloor>
         \<and> (loop_time ec - loop_time eb \<le> RATE_LIMIT - 1 \<longrightarrow>
              1 \<le> \<lfloor>RATE_LIMIT - (loop_time ec - loop_time eb)\<rfloor>)
         \<and> rotations (snd (run cfg st [(ea, Message u SetCountry [code]),
              (eb, Message u Update argsb), (ec, Message u Update argsc)])) = 1"
proof -
  define sta where "sta = st\<lparr>user_preferences := (user_preferences st)(u \<mapsto> upper cfg code)\<rparr>"
  define stb where "stb = sta\<lparr>user_last_update := (user_last_update sta)(u \<mapsto> loop_time eb)\<rparr>"
  define cmds where "cmds = fst (update_identity cfg (tor eb) (Some (upper cfg code)))"
  define n where "n = \<lfloor>RATE_LIMIT - (loop_time ec - loop_time eb)\<rfloor>"
  define ma where "ma = ReplyText (''Preferred country set to: '' @ upper cfg code)"
  define mb where "mb = ReplyText ''Your Tor identity has been updated!''"
  have sa: "handle cfg ea st (Message u SetCountry [code]) = (sta, [ma], None)"
    unfolding sta_def ma_def using set_country_command_valid [OF nb au valid]
    by (simp add: handle_def)
  have aua: "authenticated_users sta u \<noteq> None"
    using au by (simp add: sta_def)
  have prefa: "user_preferences sta u = Some (upper cfg code)"
    by (simp add: sta_def)
  have "user_last_update sta u = user_last_update st u"
    by (simp add: sta_def)
  then have "check_rate_limit sta u (loop_time eb) = check_rate_limit st u (loop_time eb)"
    by (rule check_rate_limit_cong)
  then have ratea: "check_rate_limit sta u (loop_time eb) = Ok"
    using first by simp
  have oka: "snd (update_identity cfg (tor eb) (user_preferences sta u)) = Inr ()"
    unfolding prefa by (rule ok)
  have "update_command cfg eb sta u = (stb, cmds @ [mb], None)"
    unfolding stb_def cmds_def mb_def
    using update_command_success [OF nb aua ratea oka] unfolding prefa .
  then have sb: "handle cfg eb sta (Message u Update argsb) = (stb, cmds @ [mb], None)"
    by (simp add: handle_def)
  have aub: "authenticated_users stb u \<noteq> None"
    using aua by (simp add: stb_def)
  have "user_last_update stb u = Some (loop_time eb)"
    by (simp add: stb_def)
  then have rateb: "check_rate_limit stb u (loop_time ec) = Wait n"
    unfolding n_def using window by (rule check_rate_limit_recent)
  have "update_command cfg ec stb u = (stb, [ReplyText (PLEASE_WAIT n)], None)"
    using nb aub rateb by (rule update_command_limited)
  then have sc: "handle cfg ec stb (Message u Update argsc) =
      (stb, [ReplyText (PLEASE_WAIT n)], None)"
    by (simp add: handle_def)
  have trace: "run cfg st [(ea, Message u SetCountry [code]), (eb, Message u Update argsb),
                 (ec, Message u Update argsc)] =
               (stb, [ma] @ (cmds @ [mb]) @ [ReplyText (PLEASE_WAIT n)])"
    using sa sb sc by (rule run_three)
  have "rotations [ma] = 0" "rotations [mb] = 0" "rotations [ReplyText (PLEASE_WAIT n)] = 0"
    by (simp_all add: rotations_def is_connect_def ma_def mb_def)
  moreover have "rotations cmds = 1"
    unfolding cmds_def by (rule rotations_update_identity)
  ultimately have rot: "rotations ([ma] @ (cmds @ [mb]) @ [ReplyText (PLEASE_WAIT n)]) = 1"
    unfolding rotations_append by simp
  have b: "0 \<le> n" "loop_time ec - loop_time eb \<le> RATE_LIMIT - 1 \<longrightarrow> 1 \<le> n"
    unfolding n_def using window floor_wait_bounds by blast+
  show ?thesis
    unfolding trace snd_conv using rot b
    unfolding n_def cmds_def ma_def mb_def by blast
qed

lemma authenticated_state_not_limited: "check_rate_limit authenticated_state 7 1000 = Ok"
  by (simp add: check_rate_limit_def authenticated_state_simps RATE_LIMIT_def)

theorem update_twice_in_window_witness:
  "\<not> is_blocked 7 \<and> authenticated_users authenticated_state 7 \<noteq> None
   \<and> upper default_config ''jp'' \<in> VALID_COUNTRIES default_config
   \<and> check_rate_limit authenticated_state 7 (loop_time (env_at 1000 good_tor)) = Ok
   \<and> snd (update_identity default_config (tor (env_at 1000 good_tor)) (Some (upper default_config ''jp'')))
       = Inr ()
   \<and> loop_time (env_at 1100 good_tor) - loop_time (env_at 1000 good_tor) < RATE_LIMIT
   \<and> rotations (snd (run default_config authenticated_state
        [(env_at 900 good_tor, Message 7 SetCountry [''jp'']),
         (env_at 1000 good_tor, Message 7 Update []),
         (env_at 1100 good_tor, Message 7 Update [])])) = 1"
proof -
  have au: "authenticated_users authenticated_state 7 \<noteq> None"
    by (simp add: authenticated_state_simps)
  have rate: "check_rate_limit authenticated_state 7 (loop_time (env_at 1000 good_tor)) = Ok"
    by (simp add: env_at_def authenticated_state_not_limited)
  have ok: "snd (update_identity default_config (tor (env_at 1000 good_tor))
      (Some (upper default_config ''jp''))) = Inr ()"
    by (simp add: env_at_def good_tor_rotates)
  have window: "loop_time (env_at 1100 good_tor) - loop_time (env_at 1000 good_tor) < RATE_LIMIT"
    by (simp add: env_at_def RATE_LIMIT_def)
  show ?thesis
    using user_7_not_blocked au jp_allowed rate ok window
      update_twice_in_window [OF user_7_not_blocked au jp_allowed rate ok window,
        where ea = "env_at 900 good_tor" and argsb = "[]" and argsc = "[]"]
    by blast
qed

text \<open>
  Against claim C5 as stated: user 7 authenticates, sets Japan, updates at time 1000
  and again at time 1299.5, inside the window. Half a second remains, \<open>int\<close>
  truncates it, and the second reply asks to wait 0 seconds.
\<close>
theorem update_twice_zero_seconds:
  "snd (run default_config initial_state
       [(env_at 900 good_tor, Message 7 Auth [''AUTHENTICATE_PASSWORD_MUST_BE_HERE'']),
        (env_at 950 good_tor, Message 7 SetCountry [''jp'']),
        (env_at 1000 good_tor, Message 7 Update []),
        (env_at (2599 / 2) good_tor, Message 7 Update [])]) =
     [ReplyText ''Authentication successful! Now you can use commands.'',
      ReplyText ''Preferred country set to: JP'',
      Ctl (FromPort 9051), Ctl (Authenticate ''YOUR_PASSWORD_MUST_BE_HERE''),
      Ctl (SetOptions ''{JP}'' ''1''), Ctl SignalNEWNYM, Ctl Close,
      ReplyText ''Your Tor identity has been updated!'',
      ReplyText ''Please wait 0 seconds before the next update.'']"
  by code_simp

subsection \<open>The invariant of the country preferences\<close>

text \<open>
  Claim C7. Every stored country preference is an allowed country: this holds in the
  initial state, every update that the dispatcher delivers preserves it, and so it
  holds after any run, from the initial state and from the state that \<open>main\<close>
  sets up. \<open>/setcountry\<close> stores only a code that it has found among the allowed
  countries, \<open>/reset\<close> at most removes the user's entry, and no other update
  changes the preferences.
\<close>
theorem preferences_valid_invariant:
  "preferences_valid cfg initial_state
   \<and> (preferences_valid cfg st \<longrightarrow> preferences_valid cfg (fst (handle cfg ev st upd)))
   \<and> (preferences_valid cfg st \<longrightarrow> preferences_valid cfg (fst (run cfg st evs)))
   \<and> preferences_valid cfg (fst (run cfg initial_state evs))
   \<and> (main cfg i = Some st \<longrightarrow> preferences_valid cfg (fst (run cfg st evs)))
   \<and> (user_preferences (fst (set_country_command cfg ev st u args)) = user_preferences st
      \<or> (\<exists>code. args = [code] \<and> upper cfg code \<in> VALID_COUNTRIES cfg \<and>
           user_preferences (fst (set_country_command cfg ev st u args)) =
             (user_preferences st)(u \<mapsto> upper cfg code)))
   \<and> (user_preferences (fst (reset_command cfg ev st u)) = user_preferences st
      \<or> user_preferences (fst (reset_command cfg ev st u)) = (user_preferences st)(u := None))
   \<and> ((\<forall>v a. upd \<noteq> Message v SetCountry a \<and> upd \<noteq> Message v Reset a) \<longrightarrow>
        user_preferences (fst (handle cfg ev st upd)) = user_preferences st)"
proof -
  have "preferences_valid cfg (fst (run cfg initial_state evs))"
    using initial_preferences_valid by (rule run_preferences_valid)
  moreover have "main cfg i = Some st \<longrightarrow> preferences_valid cfg (fst (run cfg st evs))"
    by (simp add: main_preferences_valid run_preferences_valid)
  ultimately show ?thesis
    using initial_preferences_valid handle_preferences_valid run_preferences_valid
      set_country_inserts_verified reset_only_removes other_updates_keep_preferences
    by simp
qed

lemma japan_run:
  "user_preferences (fst (run default_config initial_state
       [(env_at 900 good_tor, Message 7 Auth [''AUTHENTICATE_PASSWORD_MUST_BE_HERE'']),
        (env_at 950 good_tor, Message 7 SetCountry [''jp''])])) 7 = Some ''JP''"
  by code_simp

theorem preferences_valid_invariant_witness:
  "preferences_valid default_config initial_state
   \<and> user_preferences (fst (run default_config initial_state
       [(env_at 900 good_tor, Message 7 Auth [''AUTHENTICATE_PASSWORD_MUST_BE_HERE'']),
        (env_at 950 good_tor, Message 7 SetCountry [''jp''])])) 7 = Some ''JP''
   \<and> preferences_valid default_config (fst (run default_config initial_state
       [(env_at 900 good_tor, Message 7 Auth [''AUTHENTICATE_PASSWORD_MUST_BE_HERE'']),
        (env_at 950 good_tor, Message 7 SetCountry [''jp''])]))"
  using japan_run
    preferences_valid_invariant [where cfg = default_config
      and evs = "[(env_at 900 good_tor, Message 7 Auth [''AUTHENTICATE_PASSWORD_MUST_BE_HERE'']),
        (env_at 950 good_tor, Message 7 SetCountry [''jp''])]"]
  by blast

subsection \<open>The scheduler\<close>

text \<open>
  Claim C8 says that the scheduler rotates the identity periodically, more than once.
  The code schedules the job with \<open>run_once\<close> and the job does not schedule itself
  again: from the state that \<open>main\<close> sets up, however often the timer comes due
  and with no user action at all, the control port is called at most once.
\<close>
theorem scheduler_rotates_at_most_once:
  "main cfg i = Some st \<Longrightarrow> timer_only evs \<Longrightarrow> rotations (snd (run cfg st evs)) \<le> 1"
proof -
  assume m: "main cfg i = Some st" and t: "timer_only evs"
  have "length (job_queue st) = 1"
    using m by (auto simp add: main_def initial_state_def split: option.splits if_splits)
  then show ?thesis
    using timer_only_rotations [OF t, of cfg st] by simp
qed

lemma three_timers:
  "rotations (snd (run default_config scheduled_state
        [(env_at 3000 good_tor, JobDue), (env_at 6000 good_tor, JobDue),
         (env_at 9000 good_tor, JobDue)])) = 1"
  by code_simp

theorem scheduler_rotates_at_most_once_witness:
  "main default_config 3000 = Some scheduled_state
   \<and> timer_only [(env_at 3000 good_tor, JobDue), (env_at 6000 good_tor, JobDue),
         (env_at 9000 good_tor, JobDue)]
   \<and> rotations (snd (run default_config scheduled_state
        [(env_at 3000 good_tor, JobDue), (env_at 6000 good_tor, JobDue),
         (env_at 9000 good_tor, JobDue)])) \<le> 1
   \<and> rotations (snd (run default_config scheduled_state
        [(env_at 3000 good_tor, JobDue), (env_at 6000 good_tor, JobDue),
         (env_at 9000 good_tor, JobDue)])) = 1"
proof -
  have m: "main default_config 3000 = Some scheduled_state"
    by (simp add: main_def default_config_def scheduled_state_def initial_state_def)
  have t: "timer_only [(env_at 3000 good_tor, JobDue), (env_at 6000 good_tor, JobDue),
         (env_at 9000 good_tor, JobDue)]"
    by (simp add: timer_only_def)
  show ?thesis
    using m t three_timers scheduler_rotates_at_most_once [OF m t]
    by blast
qed

end
